theory Spec2Isabelle
  imports Main "HOL-Library.Word"
begin

section \<open>JavaScript strings\<close>

text \<open>
  A JavaScript string is a sequence of 16-bit code units. Program literals are ASCII and
  are written with \<open>js\<close>; user input is an arbitrary sequence.
\<close>

type_synonym jsstring = "16 word list"

definition js :: "string \<Rightarrow> jsstring" where
  "js lit = map of_char lit"

text \<open>
  \<open>String.prototype.trim\<close> removes, at both ends, the code units of the ECMAScript
  productions WhiteSpace and LineTerminator. All of them lie in the basic plane, so the
  test is on single code units.
\<close>

definition is_js_whitespace :: "16 word \<Rightarrow> bool" where
  "is_js_whitespace c =
     (c = 0x0009 \<or> c = 0x000A \<or> c = 0x000B \<or> c = 0x000C \<or> c = 0x000D \<or> c = 0x0020
      \<or> c = 0x00A0 \<or> c = 0x1680 \<or> (0x2000 \<le> c \<and> c \<le> 0x200A)
      \<or> c = 0x2028 \<or> c = 0x2029 \<or> c = 0x202F \<or> c = 0x205F \<or> c = 0x3000 \<or> c = 0xFEFF)"

definition trim :: "jsstring \<Rightarrow> jsstring" where
  "trim s = rev (dropWhile is_js_whitespace (rev (dropWhile is_js_whitespace s)))"

text \<open>\<open>!s\<close> on a string: only the empty string is falsy.\<close>

definition falsy :: "jsstring \<Rightarrow> bool" where
  "falsy s = (s = [])"

section \<open>Messages and browser calls\<close>

text \<open>
  The \<open>sender\<close> property is one of the string constants \<open>'bot'\<close>, \<open>'user'\<close>
  (ChatInterface.js) and \<open>ACTORS.JUDGE\<close>, \<open>ACTORS.OPPONENT\<close>, \<open>ACTORS.USER\<close>
  (mootcourt); \<open>ACTORS.USER\<close> is the same string \<open>'user'\<close>.
\<close>

datatype sender = Bot | User | Judge | Opponent

text \<open>
  A message object. The chat screen writes \<open>id\<close>, \<open>text\<close>, \<open>sender\<close>,
  \<open>timestamp\<close> and, for an upload, \<open>image\<close>; the moot-court screen writes
  \<open>id\<close>, \<open>sender\<close> and \<open>text\<close> only. A property that the object literal does not
  write is \<open>None\<close>. The primed names avoid constants and keywords of the logic.
\<close>

record message =
  id' :: int
  text' :: jsstring
  image' :: "jsstring option"
  sender :: sender
  timestamp :: "jsstring option"

text \<open>
  The calls a handler makes to the browser and to the router, in the order it makes
  them. \<open>console.log\<close> is recorded with its label only. \<open>setTimeout\<close> is recorded
  with its delay; the callback it registers is kept in the screen's list of pending timers.
\<close>

datatype 'f browser_call =
    PreventDefault
  | ConsoleLog jsstring
  | Navigate jsstring
  | CreateObjectURL 'f
  | SetTimeout nat

record 'f screen =
  calls :: "'f browser_call list"

section \<open>A mounted screen\<close>

text \<open>
  A function component holds its state in \<open>useState\<close> hooks. A render reads the hooks
  and binds their values to the constants of the component's body (\<open>messages\<close>,
  \<open>input\<close>, ...); the handlers created by that render, and the timer callbacks they
  create, close over these constants. A setter called with a value, \<open>setMessages(v)\<close>,
  replaces what the hook holds; called with a function, \<open>setMessages(prev => ...)\<close>, it
  is applied to what the hook holds at that moment.

  So a mounted screen is modelled by two copies of the hook values: \<open>hooks\<close>, what the
  hooks hold after all setter calls so far, and \<open>render\<close>, what the last render bound
  and what the screen shows. A handler reads the constants of its body from \<open>render\<close>
  and writes to \<open>hooks\<close>.
\<close>

record session =
  messages :: "message list"

record ('f, 'h, 'cb) mounted = "'f screen" +
  hooks :: 'h
  render :: 'h
  timers :: "(nat \<times> 'cb) list"

text \<open>A render: the constants of the body are bound anew to what the hooks hold.\<close>

definition rerender :: "('f, 'h, 'cb) mounted \<Rightarrow> ('f, 'h, 'cb) mounted" where
  "rerender s = s\<lparr>render := hooks s\<rparr>"

text \<open>
  After the handler of a user event has run, React renders before the next event if the
  handler has changed a hook. After a timer callback the render is only scheduled: it
  comes later, as an event of its own, and a user event may come before it.
\<close>

definition flush :: "('f, 'h, 'cb) mounted \<Rightarrow> ('f, 'h, 'cb) mounted \<Rightarrow> ('f, 'h, 'cb) mounted" where
  "flush s s' = (if hooks s' = hooks s then s' else rerender s')"

section \<open>The chat screen (ChatInterface.js)\<close>

text \<open>
  The two timer callbacks of the chat screen. The callback of \<open>handleSend\<close> closes over
  the \<open>messages\<close> of the render in which the form was submitted, so the id
  \<open>messages.length + 2\<close> is fixed when the timer is set and is carried by the callback.
  The callback of \<open>handleImageUpload\<close> reads \<open>prev.length\<close> when it runs.
\<close>

datatype chat_callback = BotResponse int | AnalysisResponse

record chat_hooks = session +
  input :: jsstring
  isTyping :: bool

type_synonym 'f chat_state = "('f, chat_hooks, chat_callback) mounted"

definition welcome_text :: jsstring where
  "welcome_text = js ''Hello! I am your AI Legal Assistant. You can ask me about Indian Penal Codes, draft legal documents, or upload case files for analysis. How can I help you today?''"

definition placeholder_text :: jsstring where
  "placeholder_text = js ''I have received your query regarding this legal matter. Based on Indian law context, I would suggest looking into Section of the specific act. (This is a placeholder response).''"

definition upload_text :: jsstring where
  "upload_text = js ''Analyzed attached document:''"

definition analysis_text :: jsstring where
  "analysis_text = js ''I've scanned the document you uploaded. It appears to be a legal notice. Would you like me to summarize the key points?''"

text \<open>
  The state of a freshly mounted chat screen: the three \<open>useState\<close> initialisers, and
  the first render of them. \<open>now\<close> is what \<open>new Date().toLocaleTimeString()\<close> returns
  at that moment.
\<close>

definition ChatInterface_useState :: "jsstring \<Rightarrow> chat_hooks" where
  "ChatInterface_useState now =
     \<lparr>messages = [\<lparr>id' = 1, text' = welcome_text, image' = None, sender = Bot,
                   timestamp = Some now\<rparr>],
      input = [], isTyping = False\<rparr>"

definition ChatInterface_init :: "jsstring \<Rightarrow> 'f chat_state" where
  "ChatInterface_init now =
     \<lparr>calls = [], hooks = ChatInterface_useState now, render = ChatInterface_useState now,
      timers = []\<rparr>"

text \<open>
  \<open>handleSend\<close>. The constants \<open>input\<close> and \<open>messages\<close> of its body are those of
  the last render; \<open>setMessages\<close> is called with a value, built from that
  \<open>messages\<close>. \<open>now\<close> is the time string read for the new message.
\<close>

definition handleSend :: "jsstring \<Rightarrow> 'f chat_state \<Rightarrow> 'f chat_state" where
  "handleSend now s =
     (let s0 = s\<lparr>calls := calls s @ [PreventDefault]\<rparr> in
      if falsy (trim (input (render s))) then s0
      else
        let newMessage = \<lparr>id' = int (length (messages (render s))) + 1,
                          text' = input (render s),
                          image' = None, sender = User, timestamp = Some now\<rparr>
        in s0\<lparr>hooks := (hooks s)\<lparr>messages := messages (render s) @ [newMessage],
                                  input := [],
                                  isTyping := True\<rparr>,
               timers := timers s @
                 [(1500, BotResponse (int (length (messages (render s))) + 2))],
               calls := calls s0 @ [SetTimeout 1500]\<rparr>)"

text \<open>
  \<open>handleImageUpload\<close>. \<open>files\<close> is \<open>e.target.files\<close>; \<open>files[0]\<close> of an empty
  list is \<open>undefined\<close>, which is falsy. \<open>url\<close> is what \<open>URL.createObjectURL(file)\<close>
  returns. Here too \<open>setMessages\<close> is called with a value built from the \<open>messages\<close>
  of the last render.
\<close>

definition handleImageUpload ::
  "'f list \<Rightarrow> jsstring \<Rightarrow> jsstring \<Rightarrow> 'f chat_state \<Rightarrow> 'f chat_state" where
  "handleImageUpload files url now s =
     (case files of
        [] \<Rightarrow> s
      | file # _ \<Rightarrow>
          let imageUrl = url;
              newMessage = \<lparr>id' = int (length (messages (render s))) + 1,
                            text' = upload_text,
                            image' = Some imageUrl, sender = User, timestamp = Some now\<rparr>
          in s\<lparr>hooks := (hooks s)\<lparr>messages := messages (render s) @ [newMessage],
                                   isTyping := True\<rparr>,
               timers := timers s @ [(2000, AnalysisResponse)],
               calls := calls s @ [CreateObjectURL file, SetTimeout 2000]\<rparr>)"

text \<open>
  Running a timer callback when the timer fires. Both callbacks call \<open>setMessages\<close>
  with a function, \<open>prev => [...prev, m]\<close>: they append to what the hook holds.
\<close>

fun chat_callback_run :: "chat_callback \<Rightarrow> jsstring \<Rightarrow> 'f chat_state \<Rightarrow> 'f chat_state" where
  "chat_callback_run (BotResponse k) now s =
     (let botResponse = \<lparr>id' = k, text' = placeholder_text, image' = None, sender = Bot,
                          timestamp = Some now\<rparr>
      in s\<lparr>hooks := (hooks s)\<lparr>messages := messages (hooks s) @ [botResponse],
                                isTyping := False\<rparr>\<rparr>)"
| "chat_callback_run AnalysisResponse now s =
     s\<lparr>hooks := (hooks s)\<lparr>messages := messages (hooks s) @
          [\<lparr>id' = int (length (messages (hooks s))) + 1, text' = analysis_text,
            image' = None, sender = Bot, timestamp = Some now\<rparr>],
        isTyping := False\<rparr>\<rparr>"

text \<open>
  The events of a mounted chat screen: typing into the text field (\<open>onChange\<close> calls
  \<open>setInput\<close>), submitting the form, a change event of the file input, the firing of
  the pending timer at a position of the list, and the render that React has scheduled
  after a timer callback. A fired timer leaves the list. Any pending timer may fire, which
  includes every order the browser's clock allows.
\<close>

datatype 'f chat_event =
    Change jsstring
  | Send jsstring
  | Upload "'f list" jsstring jsstring
  | Fire nat jsstring
  | Render

fun chat_step :: "'f chat_event \<Rightarrow> 'f chat_state \<Rightarrow> 'f chat_state" where
  "chat_step (Change v) s = flush s (s\<lparr>hooks := (hooks s)\<lparr>input := v\<rparr>\<rparr>)"
| "chat_step (Send now) s = flush s (handleSend now s)"
| "chat_step (Upload files url now) s = flush s (handleImageUpload files url now s)"
| "chat_step (Fire i now) s =
     (if i < length (timers s)
      then chat_callback_run (snd (timers s ! i)) now
             (s\<lparr>timers := take i (timers s) @ drop (Suc i) (timers s)\<rparr>)
      else s)"
| "chat_step Render s = rerender s"

fun chat_run :: "'f chat_event list \<Rightarrow> 'f chat_state \<Rightarrow> 'f chat_state" where
  "chat_run [] s = s"
| "chat_run (e # es) s = chat_run es (chat_step e s)"

section \<open>The moot-court screen (mootcourt)\<close>

definition opening_text :: jsstring where
  "opening_text = js ''Court is now in session. The Defendant may present their opening statement.''"

definition opponent_responses :: "jsstring list" where
  "opponent_responses =
     [js ''Objection! The counsel is leading the witness.'',
      js ''That is purely circumstantial evidence.'',
      js ''My learned friend fails to consider the precedence set in 1994.'',
      js ''I strongly disagree with that characterization of the facts.'',
      js ''The prosecution has not met the burden of proof.'']"

definition judge_responses :: "jsstring list" where
  "judge_responses =
     [js ''Order in the court. I will allow the argument, proceed.'',
      js ''Sustained. Please rephrase, Counselor.'',
      js ''Overruled. The witness will answer the question.'',
      js ''I have heard enough on this point. Move along.'',
      js ''Noted. Let us see where this leads.'']"

text \<open>
  \<open>responses[Math.floor(Math.random() * responses.length)]\<close>. The engine draws the
  number and computes the product in binary64; this arithmetic is not modelled. What is
  modelled is its result, the index: \<open>Math.random()\<close> returns a number from 0 up to but
  not including 1, both lists have five entries, and so the index is one of 0, ..., 4.
\<close>

datatype pick = Pick0 | Pick1 | Pick2 | Pick3 | Pick4

fun pick_index :: "pick \<Rightarrow> nat" where
  "pick_index Pick0 = 0"
| "pick_index Pick1 = 1"
| "pick_index Pick2 = 2"
| "pick_index Pick3 = 3"
| "pick_index Pick4 = 4"

definition generateOpponentResponse :: "pick \<Rightarrow> jsstring" where
  "generateOpponentResponse p = opponent_responses ! pick_index p"

definition generateJudgeResponse :: "pick \<Rightarrow> jsstring" where
  "generateJudgeResponse p = judge_responses ! pick_index p"

text \<open>
  The outer timer callback of \<open>handleUserSubmit\<close> appends the opponent's reply and sets
  the inner timer; the inner callback appends the judge's reply and clears the flag.
\<close>

datatype court_callback = OpponentReply | JudgeReply

record court_hooks = session +
  inputText :: jsstring
  isSimulating :: bool

type_synonym 'f court_state = "('f, court_hooks, court_callback) mounted"

definition MootCourt_useState :: court_hooks where
  "MootCourt_useState =
     \<lparr>messages = [\<lparr>id' = 1, text' = opening_text, image' = None, sender = Judge,
                   timestamp = None\<rparr>],
      inputText = [], isSimulating = False\<rparr>"

definition MootCourt_init :: "'f court_state" where
  "MootCourt_init =
     \<lparr>calls = [], hooks = MootCourt_useState, render = MootCourt_useState, timers = []\<rparr>"

text \<open>
  \<open>handleUserSubmit\<close>; \<open>now\<close> is the value of \<open>Date.now()\<close>. The constant
  \<open>inputText\<close> is that of the last render; \<open>setMessages\<close> is called with a function
  here and in both callbacks.
\<close>

definition handleUserSubmit :: "int \<Rightarrow> 'f court_state \<Rightarrow> 'f court_state" where
  "handleUserSubmit now s =
     (let s0 = s\<lparr>calls := calls s @ [PreventDefault]\<rparr> in
      if falsy (trim (inputText (render s))) then s0
      else
        let userMsg = \<lparr>id' = now, text' = inputText (render s), image' = None,
                       sender = User, timestamp = None\<rparr>
        in s0\<lparr>hooks := (hooks s)\<lparr>messages := messages (hooks s) @ [userMsg],
                                  inputText := [],
                                  isSimulating := True\<rparr>,
               timers := timers s @ [(1500, OpponentReply)],
               calls := calls s0 @ [SetTimeout 1500]\<rparr>)"

fun court_callback_run ::
  "court_callback \<Rightarrow> int \<Rightarrow> pick \<Rightarrow> 'f court_state \<Rightarrow> 'f court_state" where
  "court_callback_run OpponentReply now p s =
     (let opponentMsg = \<lparr>id' = now + 1, text' = generateOpponentResponse p, image' = None,
                          sender = Opponent, timestamp = None\<rparr>
      in s\<lparr>hooks := (hooks s)\<lparr>messages := messages (hooks s) @ [opponentMsg]\<rparr>,
           timers := timers s @ [(2000, JudgeReply)],
           calls := calls s @ [SetTimeout 2000]\<rparr>)"
| "court_callback_run JudgeReply now p s =
     (let judgeMsg = \<lparr>id' = now + 2, text' = generateJudgeResponse p, image' = None,
                       sender = Judge, timestamp = None\<rparr>
      in s\<lparr>hooks := (hooks s)\<lparr>messages := messages (hooks s) @ [judgeMsg],
                                isSimulating := False\<rparr>\<rparr>)"

text \<open>
  The events of a mounted moot-court screen: typing into the argument field, submitting
  the form, the firing of a pending timer (with the clock value and the index its callback
  draws), and the render scheduled after a timer callback.
\<close>

datatype court_event =
    CChange jsstring
  | CSubmit int
  | CFire nat int pick
  | CRender

fun court_step :: "court_event \<Rightarrow> 'f court_state \<Rightarrow> 'f court_state" where
  "court_step (CChange v) s = flush s (s\<lparr>hooks := (hooks s)\<lparr>inputText := v\<rparr>\<rparr>)"
| "court_step (CSubmit now) s = flush s (handleUserSubmit now s)"
| "court_step (CFire i now p) s =
     (if i < length (timers s)
      then court_callback_run (snd (timers s ! i)) now p
             (s\<lparr>timers := take i (timers s) @ drop (Suc i) (timers s)\<rparr>)
      else s)"
| "court_step CRender s = rerender s"

fun court_run :: "court_event list \<Rightarrow> 'f court_state \<Rightarrow> 'f court_state" where
  "court_run [] s = s"
| "court_run (e # es) s = court_run es (court_step e s)"

text \<open>
  What the rendered form allows. The argument field and the Present button both carry
  \<open>disabled={isSimulating}\<close>, with the \<open>isSimulating\<close> of the last render; a disabled
  field takes no input and a form whose field and submit button are disabled cannot be
  submitted by the user. A timer can fire only while it is pending.
\<close>

definition input_disabled :: "'f court_state \<Rightarrow> bool" where
  "input_disabled s = isSimulating (render s)"

definition button_disabled :: "'f court_state \<Rightarrow> bool" where
  "button_disabled s = isSimulating (render s)"

fun court_enabled :: "court_event \<Rightarrow> 'f court_state \<Rightarrow> bool" where
  "court_enabled (CChange v) s = (\<not> input_disabled s)"
| "court_enabled (CSubmit now) s = (\<not> button_disabled s)"
| "court_enabled (CFire i now p) s = (i < length (timers s))"
| "court_enabled CRender s = True"

text \<open>
  A run through the user interface: \<open>None\<close> when some event of the list is not possible
  in the state it meets.
\<close>

fun court_ui_run :: "court_event list \<Rightarrow> 'f court_state \<Rightarrow> 'f court_state option" where
  "court_ui_run [] s = Some s"
| "court_ui_run (e # es) s =
     (if court_enabled e s then court_ui_run es (court_step e s) else None)"

text \<open>
  The senders of the messages after the judge's opening, with every complete round of
  user, opponent and judge taken off the front: what is left is the round still open.
\<close>

fun open_round :: "sender list \<Rightarrow> sender list" where
  "open_round (User # Opponent # Judge # xs) = open_round xs"
| "open_round xs = xs"

definition senders :: "'f court_state \<Rightarrow> sender list" where
  "senders s = map sender (messages (hooks s))"

text \<open>
  The shape of a moot-court state between events. While the hook's flag is set, the last
  render has it set too, exactly one timer is pending, and the open round is the user's
  message (opponent's timer) or the user's and the opponent's (judge's timer). While the
  flag is clear no timer is pending and no round is open.
\<close>

definition reply_pending :: "'f court_state \<Rightarrow> bool" where
  "reply_pending s =
     (senders s \<noteq> [] \<and> hd (senders s) = Judge \<and>
      (if isSimulating (hooks s)
       then isSimulating (render s) \<and>
            ((timers s = [(1500, OpponentReply)] \<and> open_round (tl (senders s)) = [User])
             \<or> (timers s = [(2000, JudgeReply)]
                 \<and> open_round (tl (senders s)) = [User, Opponent]))
       else timers s = [] \<and> open_round (tl (senders s)) = []))"

section \<open>The router and the forms (App, login, signup)\<close>

datatype component = LandingPage | SignUp | Login | ChatInterface | MootCourt

text \<open>The route table of \<open>App\<close>, in the order written; a path selects the first entry equal to it.\<close>

definition Routes :: "(jsstring \<times> component) list" where
  "Routes =
     [(js ''/'', LandingPage),
      (js ''/signup'', SignUp),
      (js ''/login'', Login),
      (js ''/chat'', ChatInterface),
      (js ''/court'', MootCourt)]"

definition route :: "jsstring \<Rightarrow> component option" where
  "route path = map_of Routes path"

record credentials =
  email :: jsstring
  password :: jsstring

record formData = credentials +
  confirmPassword :: jsstring

record 'f form_screen = "'f screen" +
  error :: jsstring

record 'f login_state = "'f form_screen" +
  credentials :: credentials

record 'f signup_state = "'f form_screen" +
  formData :: formData

definition Login_init :: "'f login_state" where
  "Login_init = \<lparr>calls = [], error = [], credentials = \<lparr>email = [], password = []\<rparr>\<rparr>"

definition SignUp_init :: "'f signup_state" where
  "SignUp_init =
     \<lparr>calls = [], error = [],
      formData = \<lparr>email = [], password = [], confirmPassword = []\<rparr>\<rparr>"

text \<open>\<open>handleSubmit\<close> of \<open>Login\<close>.\<close>

definition Login_handleSubmit :: "'f login_state \<Rightarrow> 'f login_state" where
  "Login_handleSubmit s =
     (let s0 = s\<lparr>calls := calls s @ [PreventDefault]\<rparr> in
      if falsy (email (credentials s)) \<or> falsy (password (credentials s))
      then s0\<lparr>error := js ''Please enter both email and password.''\<rparr>
      else s0\<lparr>calls := calls s0 @ [ConsoleLog (js ''Logging in with:''), Navigate (js ''/chat'')]\<rparr>)"

text \<open>\<open>handleSubmit\<close> of \<open>SignUp\<close>.\<close>

definition SignUp_handleSubmit :: "'f signup_state \<Rightarrow> 'f signup_state" where
  "SignUp_handleSubmit s =
     (let s0 = s\<lparr>calls := calls s @ [PreventDefault]\<rparr> in
      if falsy (email (formData s)) \<or> falsy (password (formData s))
         \<or> falsy (confirmPassword (formData s))
      then s0\<lparr>error := js ''Please fill in all fields.''\<rparr>
      else if password (formData s) \<noteq> confirmPassword (formData s)
      then s0\<lparr>error := js ''Passwords do not match!''\<rparr>
      else s0\<lparr>calls := calls s0 @ [ConsoleLog (js ''User Registered:''), Navigate (js ''/chat'')]\<rparr>)"

text \<open>The paths a screen has navigated to, read off its calls.\<close>

definition navigations :: "'f browser_call list \<Rightarrow> jsstring list" where
  "navigations cs = concat (map (\<lambda>c. case c of Navigate p \<Rightarrow> [p] | _ \<Rightarrow> []) cs)"

section \<open>Empty and whitespace-only input\<close>

text \<open>
  The inputs that the two submit handlers reject, in the specification's words: the text
  is empty or consists of whitespace only.
\<close>

definition whitespace_only :: "jsstring \<Rightarrow> bool" where
  "whitespace_only s = list_all is_js_whitespace s"

section \<open>Trimming\<close>

lemma list_all_dropWhile: "list_all P (dropWhile P xs) = list_all P xs"
  by (induction xs) simp_all

lemma trim_empty_iff: "trim s = [] \<longleftrightarrow> list_all is_js_whitespace s"
proof -
  have "trim s = [] \<longleftrightarrow> list_all is_js_whitespace (rev (dropWhile is_js_whitespace s))"
    by (simp add: trim_def list_all_iff)
  also have "\<dots> \<longleftrightarrow> list_all is_js_whitespace s"
    by (simp add: list_all_dropWhile)
  finally show ?thesis .
qed

lemma falsy_trim_iff: "falsy (trim s) \<longleftrightarrow> whitespace_only s"
  by (simp add: falsy_def whitespace_only_def trim_empty_iff)

section \<open>Renders\<close>

lemma hooks_flush [simp]: "hooks (flush s s') = hooks s'"
  by (simp add: flush_def rerender_def)

lemma timers_flush [simp]: "timers (flush s s') = timers s'"
  by (simp add: flush_def rerender_def)

lemma calls_flush [simp]: "calls (flush s s') = calls s'"
  by (simp add: flush_def rerender_def)

lemma flush_unchanged: "hooks s' = hooks s \<Longrightarrow> flush s s' = s'"
  by (simp add: flush_def)

lemma render_flush_changed: "hooks s' \<noteq> hooks s \<Longrightarrow> render (flush s s') = hooks s'"
  by (simp add: flush_def rerender_def)

lemma flush_rendered:
  assumes "render s' = render s" and "render s = hooks s"
  shows "render (flush s s') = hooks (flush s s')"
  using assms by (simp add: flush_def rerender_def)

text \<open>
  What the chat screen shows is what its hooks hold after every event other than the
  firing of a timer: only a timer callback leaves a render outstanding.
\<close>

lemma chat_step_rendered:
  assumes "render s = hooks s" and "\<And>i now. e \<noteq> Fire i now"
  shows "render (chat_step e s) = hooks (chat_step e s)"
proof (cases e)
  case (Change v)
  then show ?thesis using assms(1) by (simp add: flush_rendered)
next
  case (Send now)
  have "render (handleSend now s) = render s"
    by (simp add: handleSend_def Let_def)
  with Send assms(1) show ?thesis by (simp add: flush_rendered)
next
  case (Upload files url now)
  have "render (handleImageUpload files url now s) = render s"
    by (cases files) (simp_all add: handleImageUpload_def Let_def)
  with Upload assms(1) show ?thesis by (simp add: flush_rendered)
next
  case (Fire i now)
  with assms(2) [of i now] show ?thesis by blast
next
  case Render
  then show ?thesis by (simp add: rerender_def)
qed

section \<open>The submit handlers, by cases\<close>

lemma handleSend_blank:
  "whitespace_only (input (render s)) \<Longrightarrow>
   handleSend now s = s\<lparr>calls := calls s @ [PreventDefault]\<rparr>"
  by (simp add: handleSend_def falsy_trim_iff)

lemma handleSend_text:
  "\<not> whitespace_only (input (render s)) \<Longrightarrow>
   handleSend now s =
     s\<lparr>calls := calls s @ [PreventDefault, SetTimeout 1500],
       hooks := (hooks s)\<lparr>messages := messages (render s) @
           [\<lparr>id' = int (length (messages (render s))) + 1, text' = input (render s),
             image' = None, sender = User, timestamp = Some now\<rparr>],
         input := [],
         isTyping := True\<rparr>,
       timers := timers s @ [(1500, BotResponse (int (length (messages (render s))) + 2))]\<rparr>"
  by (simp add: handleSend_def falsy_trim_iff Let_def)

lemma handleUserSubmit_blank:
  "whitespace_only (inputText (render s)) \<Longrightarrow>
   handleUserSubmit now s = s\<lparr>calls := calls s @ [PreventDefault]\<rparr>"
  by (simp add: handleUserSubmit_def falsy_trim_iff)

lemma handleUserSubmit_text:
  "\<not> whitespace_only (inputText (render s)) \<Longrightarrow>
   handleUserSubmit now s =
     s\<lparr>calls := calls s @ [PreventDefault, SetTimeout 1500],
       hooks := (hooks s)\<lparr>messages := messages (hooks s) @
           [\<lparr>id' = now, text' = inputText (render s), image' = None, sender = User,
             timestamp = None\<rparr>],
         inputText := [],
         isSimulating := True\<rparr>,
       timers := timers s @ [(1500, OpponentReply)]\<rparr>"
  by (simp add: handleUserSubmit_def falsy_trim_iff Let_def)

lemma handleImageUpload_file:
  "handleImageUpload (f # rest) url now s =
     s\<lparr>hooks := (hooks s)\<lparr>messages := messages (render s) @
           [\<lparr>id' = int (length (messages (render s))) + 1, text' = upload_text,
             image' = Some url, sender = User, timestamp = Some now\<rparr>],
         isTyping := True\<rparr>,
       timers := timers s @ [(2000, AnalysisResponse)],
       calls := calls s @ [CreateObjectURL f, SetTimeout 2000]\<rparr>"
  by (simp add: handleImageUpload_def Let_def)

section \<open>Rejected input\<close>

text \<open>
  Claim C6. Submitting an empty or whitespace-only input on the chat screen or on the
  moot-court screen appends no message: the message list is unchanged and no reply timer
  is started. The handler does nothing but call \<open>preventDefault\<close> on the event, and no
  render follows.
\<close>

theorem blank_submit_appends_nothing:
  "(whitespace_only (input (render s)) \<longrightarrow>
      messages (hooks (handleSend now s)) = messages (hooks s)
      \<and> messages (render (handleSend now s)) = messages (render s)
      \<and> timers (handleSend now s) = timers s
      \<and> handleSend now s = s\<lparr>calls := calls s @ [PreventDefault]\<rparr>
      \<and> chat_step (Send now) s = s\<lparr>calls := calls s @ [PreventDefault]\<rparr>)
   \<and> (whitespace_only (inputText (render c)) \<longrightarrow>
      messages (hooks (handleUserSubmit t c)) = messages (hooks c)
      \<and> messages (render (handleUserSubmit t c)) = messages (render c)
      \<and> timers (handleUserSubmit t c) = timers c
      \<and> handleUserSubmit t c = c\<lparr>calls := calls c @ [PreventDefault]\<rparr>
      \<and> court_step (CSubmit t) c = c\<lparr>calls := calls c @ [PreventDefault]\<rparr>)"
  by (simp add: handleSend_blank handleUserSubmit_blank flush_unchanged)

text \<open>
  The chat screen with a space, a tab and a no-break space typed into its field, and the
  freshly mounted moot-court screen, whose field is empty.
\<close>

theorem blank_submit_appends_nothing_witness:
  "whitespace_only [0x20, 0x09, 0xA0]
   \<and> messages (hooks (chat_run [Change [0x20, 0x09, 0xA0], Send []]
        (ChatInterface_init [] :: unit chat_state)))
       = messages (hooks (ChatInterface_init [] :: unit chat_state))
   \<and> timers (chat_run [Change [0x20, 0x09, 0xA0], Send []]
        (ChatInterface_init [] :: unit chat_state)) = []
   \<and> whitespace_only []
   \<and> messages (hooks (handleUserSubmit 1000 (MootCourt_init :: unit court_state)))
       = messages (hooks (MootCourt_init :: unit court_state))
   \<and> timers (handleUserSubmit 1000 (MootCourt_init :: unit court_state)) = []"
proof -
  let ?s1 = "(ChatInterface_init [] :: unit chat_state)
               \<lparr>hooks := (ChatInterface_useState [])\<lparr>input := [0x20, 0x09, 0xA0]\<rparr>,
                 render := (ChatInterface_useState [])\<lparr>input := [0x20, 0x09, 0xA0]\<rparr>\<rparr>"
  have h1: "whitespace_only [0x20, 0x09, 0xA0]"
    by (simp add: whitespace_only_def is_js_whitespace_def)
  have h2: "whitespace_only []"
    by (simp add: whitespace_only_def)
  have typed: "chat_step (Change [0x20, 0x09, 0xA0]) (ChatInterface_init [] :: unit chat_state) = ?s1"
    by (simp add: ChatInterface_init_def ChatInterface_useState_def flush_def rerender_def)
  have run: "chat_run [Change [0x20, 0x09, 0xA0], Send []] (ChatInterface_init [] :: unit chat_state)
      = chat_step (Send []) ?s1"
    by (simp only: chat_run.simps typed)
  have blank1: "whitespace_only (input (render ?s1))"
    using h1 by (simp add: ChatInterface_useState_def)
  have blank2: "whitespace_only (inputText (render (MootCourt_init :: unit court_state)))"
    using h2 by (simp add: MootCourt_init_def MootCourt_useState_def)
  from blank1 blank2
    blank_submit_appends_nothing [of ?s1 "[]" "MootCourt_init :: unit court_state" 1000]
  have sent: "chat_step (Send []) ?s1 = ?s1\<lparr>calls := calls ?s1 @ [PreventDefault]\<rparr>"
    and court: "handleUserSubmit 1000 (MootCourt_init :: unit court_state)
      = MootCourt_init\<lparr>calls := calls (MootCourt_init :: unit court_state) @ [PreventDefault]\<rparr>"
    by blast+
  show ?thesis
    unfolding run sent court
    using h1 h2
    by (simp add: ChatInterface_init_def ChatInterface_useState_def MootCourt_init_def)
qed

text \<open>
  Claim C10. If the change event of the file picker delivers no file, the handler leaves
  the session as it was: no message is appended, the typing flag is not set and no reply
  timer is scheduled.
\<close>

theorem cancelled_picker_changes_nothing:
  "handleImageUpload [] url now s = s"
  by (simp add: handleImageUpload_def)

section \<open>The forms\<close>

lemma navigations_append: "navigations (xs @ ys) = navigations xs @ navigations ys"
  by (simp add: navigations_def)

lemma route_chat: "route (js ''/chat'') = Some ChatInterface"
  by (simp add: route_def Routes_def js_def)

lemma Login_handleSubmit_ok:
  "email (credentials s) \<noteq> [] \<Longrightarrow> password (credentials s) \<noteq> [] \<Longrightarrow>
   Login_handleSubmit s =
     s\<lparr>calls := calls s @ [PreventDefault, ConsoleLog (js ''Logging in with:''),
                            Navigate (js ''/chat'')]\<rparr>"
  by (simp add: Login_handleSubmit_def falsy_def Let_def)

lemma Login_handleSubmit_missing:
  "email (credentials s) = [] \<or> password (credentials s) = [] \<Longrightarrow>
   Login_handleSubmit s =
     s\<lparr>calls := calls s @ [PreventDefault],
       error := js ''Please enter both email and password.''\<rparr>"
  by (auto simp add: Login_handleSubmit_def falsy_def Let_def)

text \<open>
  Claim C4. Login submit: if both the email and the password field are non-empty, it
  navigates to the chat screen (the path \<open>/chat\<close>, which the route table maps to
  \<open>ChatInterface\<close>); if either field is empty, it sets an error message and does not
  navigate.
\<close>

theorem login_submit:
  "(email (credentials s) \<noteq> [] \<and> password (credentials s) \<noteq> [] \<longrightarrow>
      navigations (calls (Login_handleSubmit s)) = navigations (calls s) @ [js ''/chat'']
      \<and> route (js ''/chat'') = Some ChatInterface
      \<and> error (Login_handleSubmit s) = error s)
   \<and> (email (credentials s) = [] \<or> password (credentials s) = [] \<longrightarrow>
      error (Login_handleSubmit s) = js ''Please enter both email and password.''
      \<and> error (Login_handleSubmit s) \<noteq> []
      \<and> navigations (calls (Login_handleSubmit s)) = navigations (calls s))"
proof (intro conjI impI)
  assume a: "email (credentials s) \<noteq> [] \<and> password (credentials s) \<noteq> []"
  then have eq: "Login_handleSubmit s =
     s\<lparr>calls := calls s @ [PreventDefault, ConsoleLog (js ''Logging in with:''),
                            Navigate (js ''/chat'')]\<rparr>"
    by (simp add: Login_handleSubmit_ok)
  show "navigations (calls (Login_handleSubmit s)) = navigations (calls s) @ [js ''/chat'']"
    by (simp add: eq navigations_append) (simp add: navigations_def)
  show "error (Login_handleSubmit s) = error s"
    by (simp add: eq)
  show "route (js ''/chat'') = Some ChatInterface"
    by (rule route_chat)
next
  assume a: "email (credentials s) = [] \<or> password (credentials s) = []"
  then have eq: "Login_handleSubmit s =
     s\<lparr>calls := calls s @ [PreventDefault],
       error := js ''Please enter both email and password.''\<rparr>"
    by (rule Login_handleSubmit_missing)
  show "error (Login_handleSubmit s) = js ''Please enter both email and password.''"
    by (simp add: eq)
  show "error (Login_handleSubmit s) \<noteq> []"
    by (simp add: eq js_def)
  show "navigations (calls (Login_handleSubmit s)) = navigations (calls s)"
    by (simp add: eq navigations_append) (simp add: navigations_def)
qed

text \<open>The draft \<open>a\<close>/\<open>b\<close> is let through; the draft \<open>a\<close> with no password is refused.\<close>

theorem login_submit_witness:
  "navigations (calls (Login_handleSubmit
      ((Login_init :: unit login_state)\<lparr>credentials := \<lparr>email = [0x61], password = [0x62]\<rparr>\<rparr>)))
     = [js ''/chat'']
   \<and> error (Login_handleSubmit
      ((Login_init :: unit login_state)\<lparr>credentials := \<lparr>email = [0x61], password = [0x62]\<rparr>\<rparr>)) = []
   \<and> error (Login_handleSubmit
      ((Login_init :: unit login_state)\<lparr>credentials := \<lparr>email = [0x61], password = []\<rparr>\<rparr>))
     = js ''Please enter both email and password.''
   \<and> navigations (calls (Login_handleSubmit
      ((Login_init :: unit login_state)\<lparr>credentials := \<lparr>email = [0x61], password = []\<rparr>\<rparr>))) = []"
  using
    login_submit [of "(Login_init :: unit login_state)\<lparr>credentials := \<lparr>email = [0x61], password = [0x62]\<rparr>\<rparr>"]
    login_submit [of "(Login_init :: unit login_state)\<lparr>credentials := \<lparr>email = [0x61], password = []\<rparr>\<rparr>"]
  by (simp add: Login_init_def navigations_def)


lemma SignUp_handleSubmit_missing:
  "email (formData s) = [] \<or> password (formData s) = [] \<or> confirmPassword (formData s) = [] \<Longrightarrow>
   SignUp_handleSubmit s =
     s\<lparr>calls := calls s @ [PreventDefault], error := js ''Please fill in all fields.''\<rparr>"
  by (auto simp add: SignUp_handleSubmit_def falsy_def Let_def)

lemma SignUp_handleSubmit_mismatch:
  "email (formData s) \<noteq> [] \<Longrightarrow> password (formData s) \<noteq> [] \<Longrightarrow>
   confirmPassword (formData s) \<noteq> [] \<Longrightarrow>
   password (formData s) \<noteq> confirmPassword (formData s) \<Longrightarrow>
   SignUp_handleSubmit s =
     s\<lparr>calls := calls s @ [PreventDefault], error := js ''Passwords do not match!''\<rparr>"
  by (simp add: SignUp_handleSubmit_def falsy_def Let_def)

lemma SignUp_handleSubmit_ok:
  "email (formData s) \<noteq> [] \<Longrightarrow> password (formData s) \<noteq> [] \<Longrightarrow>
   confirmPassword (formData s) = password (formData s) \<Longrightarrow>
   SignUp_handleSubmit s =
     s\<lparr>calls := calls s @ [PreventDefault, ConsoleLog (js ''User Registered:''),
                            Navigate (js ''/chat'')]\<rparr>"
  by (simp add: SignUp_handleSubmit_def falsy_def Let_def)

lemma SignUp_no_navigation_on_mismatch:
  assumes "password (formData s) \<noteq> confirmPassword (formData s)"
  shows "navigations (calls (SignUp_handleSubmit s)) = navigations (calls s)"
proof (cases "email (formData s) = [] \<or> password (formData s) = [] \<or> confirmPassword (formData s) = []")
  case True
  then show ?thesis
    by (simp only: SignUp_handleSubmit_missing) (simp add: navigations_def)
next
  case False
  with assms show ?thesis
    by (simp add: SignUp_handleSubmit_mismatch) (simp add: navigations_def)
qed

text \<open>
  Claim C5, as amended. Signup submit: if email, password and confirm-password are all
  non-empty and the two passwords are unequal, it shows the error
  \<open>Passwords do not match!\<close>; if one of the three fields is empty, it shows the error
  \<open>Please fill in all fields.\<close> and performs no navigation; whenever the two passwords
  are unequal it performs no navigation; if all three fields are non-empty and the
  passwords match, it navigates to the chat screen, whatever the values are.
\<close>

theorem signup_submit:
  "(email (formData s) \<noteq> [] \<and> password (formData s) \<noteq> [] \<and> confirmPassword (formData s) \<noteq> []
      \<and> password (formData s) \<noteq> confirmPassword (formData s) \<longrightarrow>
      error (SignUp_handleSubmit s) = js ''Passwords do not match!'')
   \<and> (email (formData s) = [] \<or> password (formData s) = [] \<or> confirmPassword (formData s) = [] \<longrightarrow>
      error (SignUp_handleSubmit s) = js ''Please fill in all fields.''
      \<and> navigations (calls (SignUp_handleSubmit s)) = navigations (calls s))
   \<and> (password (formData s) \<noteq> confirmPassword (formData s) \<longrightarrow>
      navigations (calls (SignUp_handleSubmit s)) = navigations (calls s))
   \<and> (email (formData s) \<noteq> [] \<and> password (formData s) \<noteq> [] \<and> confirmPassword (formData s) \<noteq> []
      \<and> password (formData s) = confirmPassword (formData s) \<longrightarrow>
      navigations (calls (SignUp_handleSubmit s)) = navigations (calls s) @ [js ''/chat'']
      \<and> route (js ''/chat'') = Some ChatInterface
      \<and> error (SignUp_handleSubmit s) = error s)"
proof (intro conjI impI)
  assume "email (formData s) \<noteq> [] \<and> password (formData s) \<noteq> [] \<and> confirmPassword (formData s) \<noteq> []
      \<and> password (formData s) \<noteq> confirmPassword (formData s)"
  then show "error (SignUp_handleSubmit s) = js ''Passwords do not match!''"
    by (simp add: SignUp_handleSubmit_mismatch)
next
  assume a: "email (formData s) = [] \<or> password (formData s) = [] \<or> confirmPassword (formData s) = []"
  then have eq: "SignUp_handleSubmit s =
     s\<lparr>calls := calls s @ [PreventDefault], error := js ''Please fill in all fields.''\<rparr>"
    by (rule SignUp_handleSubmit_missing)
  show "error (SignUp_handleSubmit s) = js ''Please fill in all fields.''"
    by (simp add: eq)
  show "navigations (calls (SignUp_handleSubmit s)) = navigations (calls s)"
    by (simp add: eq navigations_append) (simp add: navigations_def)
next
  assume "password (formData s) \<noteq> confirmPassword (formData s)"
  then show "navigations (calls (SignUp_handleSubmit s)) = navigations (calls s)"
    by (rule SignUp_no_navigation_on_mismatch)
next
  assume a: "email (formData s) \<noteq> [] \<and> password (formData s) \<noteq> [] \<and> confirmPassword (formData s) \<noteq> []
      \<and> password (formData s) = confirmPassword (formData s)"
  then have eq: "SignUp_handleSubmit s =
     s\<lparr>calls := calls s @ [PreventDefault, ConsoleLog (js ''User Registered:''),
                            Navigate (js ''/chat'')]\<rparr>"
    by (simp add: SignUp_handleSubmit_ok)
  show "navigations (calls (SignUp_handleSubmit s)) = navigations (calls s) @ [js ''/chat'']"
    by (simp add: eq navigations_append) (simp add: navigations_def)
  show "route (js ''/chat'') = Some ChatInterface"
    by (rule route_chat)
  show "error (SignUp_handleSubmit s) = error s"
    by (simp add: eq)
qed

text \<open>
  A draft with unequal passwords, the same draft without the email, and a draft with
  equal passwords.
\<close>

theorem signup_submit_witness:
  "error (SignUp_handleSubmit ((SignUp_init :: unit signup_state)
      \<lparr>formData := \<lparr>email = [0x65], password = [0x61], confirmPassword = [0x62]\<rparr>\<rparr>))
     = js ''Passwords do not match!''
   \<and> navigations (calls (SignUp_handleSubmit ((SignUp_init :: unit signup_state)
      \<lparr>formData := \<lparr>email = [0x65], password = [0x61], confirmPassword = [0x62]\<rparr>\<rparr>))) = []
   \<and> error (SignUp_handleSubmit ((SignUp_init :: unit signup_state)
      \<lparr>formData := \<lparr>email = [], password = [0x61], confirmPassword = [0x62]\<rparr>\<rparr>))
     = js ''Please fill in all fields.''
   \<and> navigations (calls (SignUp_handleSubmit ((SignUp_init :: unit signup_state)
      \<lparr>formData := \<lparr>email = [], password = [0x61], confirmPassword = [0x62]\<rparr>\<rparr>))) = []
   \<and> navigations (calls (SignUp_handleSubmit ((SignUp_init :: unit signup_state)
      \<lparr>formData := \<lparr>email = [0x65], password = [0x61], confirmPassword = [0x61]\<rparr>\<rparr>)))
     = [js ''/chat'']"
  using
    signup_submit [of "(SignUp_init :: unit signup_state)
      \<lparr>formData := \<lparr>email = [0x65], password = [0x61], confirmPassword = [0x62]\<rparr>\<rparr>"]
    signup_submit [of "(SignUp_init :: unit signup_state)
      \<lparr>formData := \<lparr>email = [], password = [0x61], confirmPassword = [0x62]\<rparr>\<rparr>"]
    signup_submit [of "(SignUp_init :: unit signup_state)
      \<lparr>formData := \<lparr>email = [0x65], password = [0x61], confirmPassword = [0x61]\<rparr>\<rparr>"]
  by (simp add: SignUp_init_def navigations_def)

text \<open>
  The claim as first stated asks for the mismatch error whenever password and
  confirm-password are non-empty and unequal. The required-fields check comes first in
  \<open>handleSubmit\<close>: with the email field empty the error shown is
  \<open>Please fill in all fields.\<close>
\<close>

theorem signup_mismatch_counterexample:
  "password \<lparr>email = [], password = [0x61], confirmPassword = [0x62]\<rparr> \<noteq> []
   \<and> confirmPassword \<lparr>email = [], password = [0x61], confirmPassword = [0x62]\<rparr> \<noteq> []
   \<and> password \<lparr>email = [], password = [0x61], confirmPassword = [0x62]\<rparr>
       \<noteq> confirmPassword \<lparr>email = [], password = [0x61], confirmPassword = [0x62]\<rparr>
   \<and> error (SignUp_handleSubmit ((SignUp_init :: unit signup_state)
        \<lparr>formData := \<lparr>email = [], password = [0x61], confirmPassword = [0x62]\<rparr>\<rparr>))
       = js ''Please fill in all fields.''
   \<and> error (SignUp_handleSubmit ((SignUp_init :: unit signup_state)
        \<lparr>formData := \<lparr>email = [], password = [0x61], confirmPassword = [0x62]\<rparr>\<rparr>))
       \<noteq> js ''Passwords do not match!''"
  by (simp add: SignUp_handleSubmit_def SignUp_init_def falsy_def Let_def js_def)

section \<open>The state at mount\<close>

text \<open>
  Claim C2, as amended. Immediately after mounting, and before any user action, the
  message list of the chat screen holds exactly one message, the assistant's greeting with
  id 1 and sender \<open>bot\<close>, and the message list of the moot-court screen holds exactly
  one message, the judge's opening with id 1; the input is empty, the pending flag is
  false and no timer is pending. The first render shows what the hooks hold.
\<close>

theorem sessions_start_with_greeting:
  "messages (hooks (ChatInterface_init now)) =
     [\<lparr>id' = 1, text' = welcome_text, image' = None, sender = Bot, timestamp = Some now\<rparr>]
   \<and> length (messages (hooks (ChatInterface_init now))) = 1
   \<and> input (hooks (ChatInterface_init now)) = []
   \<and> isTyping (hooks (ChatInterface_init now)) = False
   \<and> timers (ChatInterface_init now) = []
   \<and> render (ChatInterface_init now) = hooks (ChatInterface_init now)
   \<and> messages (hooks MootCourt_init) =
     [\<lparr>id' = 1, text' = opening_text, image' = None, sender = Judge, timestamp = None\<rparr>]
   \<and> length (messages (hooks MootCourt_init)) = 1
   \<and> inputText (hooks MootCourt_init) = []
   \<and> isSimulating (hooks MootCourt_init) = False
   \<and> timers MootCourt_init = []
   \<and> render MootCourt_init = hooks MootCourt_init"
  by (simp add: ChatInterface_init_def ChatInterface_useState_def MootCourt_init_def
      MootCourt_useState_def)

text \<open>The claim as first stated has the list empty at mount; it is not, on either screen.\<close>

theorem sessions_start_empty_counterexample:
  "messages (hooks (ChatInterface_init (js ''10:15:00 AM'') :: unit chat_state)) \<noteq> []
   \<and> messages (render (ChatInterface_init (js ''10:15:00 AM'') :: unit chat_state)) \<noteq> []
   \<and> messages (hooks (MootCourt_init :: unit court_state)) \<noteq> []
   \<and> messages (render (MootCourt_init :: unit court_state)) \<noteq> []"
  by (simp add: ChatInterface_init_def ChatInterface_useState_def MootCourt_init_def
      MootCourt_useState_def)

section \<open>Submitting text\<close>

lemma chat_callback_run_BotResponse:
  "messages (hooks (chat_callback_run (BotResponse k) now s)) =
     messages (hooks s) @ [\<lparr>id' = k, text' = placeholder_text, image' = None, sender = Bot,
                             timestamp = Some now\<rparr>]
   \<and> timers (chat_callback_run (BotResponse k) now s) = timers s"
  by simp

lemma court_callback_run_OpponentReply:
  "messages (hooks (court_callback_run OpponentReply now p s)) =
     messages (hooks s) @ [\<lparr>id' = now + 1, text' = generateOpponentResponse p,
                             image' = None, sender = Opponent, timestamp = None\<rparr>]
   \<and> timers (court_callback_run OpponentReply now p s) = timers s @ [(2000, JudgeReply)]"
  by simp

lemma court_callback_run_JudgeReply:
  "messages (hooks (court_callback_run JudgeReply now p s)) =
     messages (hooks s) @ [\<lparr>id' = now + 2, text' = generateJudgeResponse p,
                             image' = None, sender = Judge, timestamp = None\<rparr>]
   \<and> timers (court_callback_run JudgeReply now p s) = timers s"
  by simp

lemma chat_send_then_reply:
  assumes "\<not> whitespace_only (input (render s))"
  shows "messages (hooks (chat_run [Send now, Fire (length (timers s)) now'] s)) =
      messages (render s) @
        [\<lparr>id' = int (length (messages (render s))) + 1, text' = input (render s),
          image' = None, sender = User, timestamp = Some now\<rparr>,
         \<lparr>id' = int (length (messages (render s))) + 2, text' = placeholder_text,
          image' = None, sender = Bot, timestamp = Some now'\<rparr>]
    \<and> timers (chat_run [Send now, Fire (length (timers s)) now'] s) = timers s"
  using assms by (simp add: handleSend_text)

lemma court_submit_then_replies:
  assumes "\<not> whitespace_only (inputText (render c))"
  shows "messages (hooks (court_run [CSubmit t, CFire (length (timers c)) t1 p1,
                                      CFire (length (timers c)) t2 p2] c)) =
      messages (hooks c) @
        [\<lparr>id' = t, text' = inputText (render c), image' = None, sender = User,
          timestamp = None\<rparr>,
         \<lparr>id' = t1 + 1, text' = generateOpponentResponse p1, image' = None,
          sender = Opponent, timestamp = None\<rparr>,
         \<lparr>id' = t2 + 2, text' = generateJudgeResponse p2, image' = None,
          sender = Judge, timestamp = None\<rparr>]
    \<and> timers (court_run [CSubmit t, CFire (length (timers c)) t1 p1,
                           CFire (length (timers c)) t2 p2] c) = timers c"
  using assms by (simp add: handleUserSubmit_text)

text \<open>
  Claim C1, as amended. For every input that is not empty and not whitespace-only:
  submitting it on the chat screen, when the rendered message list is the list the hook
  holds, appends exactly one message with sender \<open>user\<close> and the literal input as text,
  and sets one timer of 1500 ms whose callback, whenever it runs, appends exactly one
  reply with sender \<open>bot\<close> and sets no further timer; submitting it on the moot-court
  screen appends exactly one message with sender \<open>user\<close> and the literal input as text,
  and sets one timer of 1500 ms whose callback appends exactly one reply of the opponent
  and sets a timer of 2000 ms, whose callback appends exactly one reply of the judge: two
  replies for each submission.
\<close>

theorem submit_appends_user_then_replies:
  "(\<not> whitespace_only (input (render s)) \<and> messages (render s) = messages (hooks s) \<longrightarrow>
      messages (hooks (handleSend now s)) =
        messages (hooks s) @
          [\<lparr>id' = int (length (messages (hooks s))) + 1, text' = input (render s),
            image' = None, sender = User, timestamp = Some now\<rparr>]
      \<and> timers (handleSend now s) =
          timers s @ [(1500, BotResponse (int (length (messages (hooks s))) + 2))]
      \<and> messages (hooks (chat_run [Send now, Fire (length (timers s)) now'] s)) =
          messages (hooks s) @
            [\<lparr>id' = int (length (messages (hooks s))) + 1, text' = input (render s),
              image' = None, sender = User, timestamp = Some now\<rparr>,
             \<lparr>id' = int (length (messages (hooks s))) + 2, text' = placeholder_text,
              image' = None, sender = Bot, timestamp = Some now'\<rparr>]
      \<and> timers (chat_run [Send now, Fire (length (timers s)) now'] s) = timers s)
   \<and> messages (hooks (chat_callback_run (BotResponse k) now' s')) =
        messages (hooks s') @ [\<lparr>id' = k, text' = placeholder_text, image' = None,
                                 sender = Bot, timestamp = Some now'\<rparr>]
   \<and> timers (chat_callback_run (BotResponse k) now' s') = timers s'
   \<and> (\<not> whitespace_only (inputText (render c)) \<longrightarrow>
      messages (hooks (handleUserSubmit t c)) =
        messages (hooks c) @ [\<lparr>id' = t, text' = inputText (render c), image' = None,
                                sender = User, timestamp = None\<rparr>]
      \<and> timers (handleUserSubmit t c) = timers c @ [(1500, OpponentReply)]
      \<and> messages (hooks (court_run [CSubmit t, CFire (length (timers c)) t1 p1,
                                      CFire (length (timers c)) t2 p2] c)) =
          messages (hooks c) @
            [\<lparr>id' = t, text' = inputText (render c), image' = None, sender = User,
              timestamp = None\<rparr>,
             \<lparr>id' = t1 + 1, text' = generateOpponentResponse p1, image' = None,
              sender = Opponent, timestamp = None\<rparr>,
             \<lparr>id' = t2 + 2, text' = generateJudgeResponse p2, image' = None,
              sender = Judge, timestamp = None\<rparr>]
      \<and> timers (court_run [CSubmit t, CFire (length (timers c)) t1 p1,
                             CFire (length (timers c)) t2 p2] c) = timers c)
   \<and> messages (hooks (court_callback_run OpponentReply t1 p1 c')) =
        messages (hooks c') @ [\<lparr>id' = t1 + 1, text' = generateOpponentResponse p1,
                                 image' = None, sender = Opponent, timestamp = None\<rparr>]
   \<and> timers (court_callback_run OpponentReply t1 p1 c') = timers c' @ [(2000, JudgeReply)]
   \<and> messages (hooks (court_callback_run JudgeReply t2 p2 c')) =
        messages (hooks c') @ [\<lparr>id' = t2 + 2, text' = generateJudgeResponse p2,
                                 image' = None, sender = Judge, timestamp = None\<rparr>]
   \<and> timers (court_callback_run JudgeReply t2 p2 c') = timers c'"
proof (intro conjI impI)
  assume a: "\<not> whitespace_only (input (render s)) \<and> messages (render s) = messages (hooks s)"
  then have blank: "\<not> whitespace_only (input (render s))"
    and up: "messages (render s) = messages (hooks s)" by simp_all
  show "messages (hooks (handleSend now s)) =
        messages (hooks s) @
          [\<lparr>id' = int (length (messages (hooks s))) + 1, text' = input (render s),
            image' = None, sender = User, timestamp = Some now\<rparr>]"
    using blank up by (simp add: handleSend_text)
  show "timers (handleSend now s) =
          timers s @ [(1500, BotResponse (int (length (messages (hooks s))) + 2))]"
    using blank up by (simp add: handleSend_text)
  show "messages (hooks (chat_run [Send now, Fire (length (timers s)) now'] s)) =
          messages (hooks s) @
            [\<lparr>id' = int (length (messages (hooks s))) + 1, text' = input (render s),
              image' = None, sender = User, timestamp = Some now\<rparr>,
             \<lparr>id' = int (length (messages (hooks s))) + 2, text' = placeholder_text,
              image' = None, sender = Bot, timestamp = Some now'\<rparr>]"
    using chat_send_then_reply [OF blank, of now now'] up by simp
  show "timers (chat_run [Send now, Fire (length (timers s)) now'] s) = timers s"
    using chat_send_then_reply [OF blank, of now now'] by simp
next
  show "messages (hooks (chat_callback_run (BotResponse k) now' s')) =
        messages (hooks s') @ [\<lparr>id' = k, text' = placeholder_text, image' = None,
                                 sender = Bot, timestamp = Some now'\<rparr>]"
    by simp
  show "timers (chat_callback_run (BotResponse k) now' s') = timers s'"
    by simp
next
  assume blank: "\<not> whitespace_only (inputText (render c))"
  show "messages (hooks (handleUserSubmit t c)) =
        messages (hooks c) @ [\<lparr>id' = t, text' = inputText (render c), image' = None,
                                sender = User, timestamp = None\<rparr>]"
    using blank by (simp add: handleUserSubmit_text)
  show "timers (handleUserSubmit t c) = timers c @ [(1500, OpponentReply)]"
    using blank by (simp add: handleUserSubmit_text)
  show "messages (hooks (court_run [CSubmit t, CFire (length (timers c)) t1 p1,
                                      CFire (length (timers c)) t2 p2] c)) =
          messages (hooks c) @
            [\<lparr>id' = t, text' = inputText (render c), image' = None, sender = User,
              timestamp = None\<rparr>,
             \<lparr>id' = t1 + 1, text' = generateOpponentResponse p1, image' = None,
              sender = Opponent, timestamp = None\<rparr>,
             \<lparr>id' = t2 + 2, text' = generateJudgeResponse p2, image' = None,
              sender = Judge, timestamp = None\<rparr>]"
    using court_submit_then_replies [OF blank, of t t1 p1 t2 p2] by simp
  show "timers (court_run [CSubmit t, CFire (length (timers c)) t1 p1,
                             CFire (length (timers c)) t2 p2] c) = timers c"
    using court_submit_then_replies [OF blank, of t t1 p1 t2 p2] by simp
next
  show "messages (hooks (court_callback_run OpponentReply t1 p1 c')) =
        messages (hooks c') @ [\<lparr>id' = t1 + 1, text' = generateOpponentResponse p1,
                                 image' = None, sender = Opponent, timestamp = None\<rparr>]"
    by simp
  show "timers (court_callback_run OpponentReply t1 p1 c') = timers c' @ [(2000, JudgeReply)]"
    by simp
  show "messages (hooks (court_callback_run JudgeReply t2 p2 c')) =
        messages (hooks c') @ [\<lparr>id' = t2 + 2, text' = generateJudgeResponse p2,
                                 image' = None, sender = Judge, timestamp = None\<rparr>]"
    by simp
  show "timers (court_callback_run JudgeReply t2 p2 c') = timers c'"
    by simp
qed

text \<open>
  The text \<open>hi\<close> typed and rendered on either freshly mounted screen, then submitted,
  followed by the timers it sets.
\<close>

theorem submit_appends_user_then_replies_witness:
  "\<not> whitespace_only [0x68, 0x69]
   \<and> map sender (messages (hooks (chat_run [Send [], Fire 0 []]
        ((ChatInterface_init [] :: unit chat_state)
           \<lparr>hooks := (ChatInterface_useState [])\<lparr>input := [0x68, 0x69]\<rparr>,
             render := (ChatInterface_useState [])\<lparr>input := [0x68, 0x69]\<rparr>\<rparr>))))
       = [Bot, User, Bot]
   \<and> map text' (tl (messages (hooks (chat_run [Send [], Fire 0 []]
        ((ChatInterface_init [] :: unit chat_state)
           \<lparr>hooks := (ChatInterface_useState [])\<lparr>input := [0x68, 0x69]\<rparr>,
             render := (ChatInterface_useState [])\<lparr>input := [0x68, 0x69]\<rparr>\<rparr>)))))
       = [[0x68, 0x69], placeholder_text]
   \<and> map sender (messages (hooks (court_run [CSubmit 1000, CFire 0 2500 Pick0, CFire 0 4500 Pick0]
        ((MootCourt_init :: unit court_state)
           \<lparr>hooks := MootCourt_useState\<lparr>inputText := [0x68, 0x69]\<rparr>,
             render := MootCourt_useState\<lparr>inputText := [0x68, 0x69]\<rparr>\<rparr>))))
       = [Judge, User, Opponent, Judge]"
proof -
  let ?s = "(ChatInterface_init [] :: unit chat_state)
           \<lparr>hooks := (ChatInterface_useState [])\<lparr>input := [0x68, 0x69]\<rparr>,
             render := (ChatInterface_useState [])\<lparr>input := [0x68, 0x69]\<rparr>\<rparr>"
  let ?c = "(MootCourt_init :: unit court_state)
           \<lparr>hooks := MootCourt_useState\<lparr>inputText := [0x68, 0x69]\<rparr>,
             render := MootCourt_useState\<lparr>inputText := [0x68, 0x69]\<rparr>\<rparr>"
  have h: "\<not> whitespace_only [0x68, 0x69]"
    by (simp add: whitespace_only_def is_js_whitespace_def)
  have hs: "\<not> whitespace_only (input (render ?s)) \<and> messages (render ?s) = messages (hooks ?s)"
    using h by simp
  have hc: "\<not> whitespace_only (inputText (render ?c))"
    using h by simp
  have ts: "length (timers ?s) = 0" and tc: "length (timers ?c) = 0"
    by (simp_all add: ChatInterface_init_def MootCourt_init_def)
  from hs hc
    submit_appends_user_then_replies
      [where s = ?s and c = ?c and now = "[]" and now' = "[]" and t = 1000
         and ?t1.0 = 2500 and ?p1.0 = Pick0 and ?t2.0 = 4500 and ?p2.0 = Pick0]
  have chat: "messages (hooks (chat_run [Send [], Fire (length (timers ?s)) []] ?s)) =
          messages (hooks ?s) @
            [\<lparr>id' = int (length (messages (hooks ?s))) + 1, text' = input (render ?s),
              image' = None, sender = User, timestamp = Some []\<rparr>,
             \<lparr>id' = int (length (messages (hooks ?s))) + 2, text' = placeholder_text,
              image' = None, sender = Bot, timestamp = Some []\<rparr>]"
    and court: "messages (hooks (court_run [CSubmit 1000, CFire (length (timers ?c)) 2500 Pick0,
                                      CFire (length (timers ?c)) 4500 Pick0] ?c)) =
          messages (hooks ?c) @
            [\<lparr>id' = 1000, text' = inputText (render ?c), image' = None, sender = User,
              timestamp = None\<rparr>,
             \<lparr>id' = 2500 + 1, text' = generateOpponentResponse Pick0, image' = None,
              sender = Opponent, timestamp = None\<rparr>,
             \<lparr>id' = 4500 + 2, text' = generateJudgeResponse Pick0, image' = None,
              sender = Judge, timestamp = None\<rparr>]"
    by blast+
  show ?thesis
    using h chat court unfolding ts tc
    by (simp add: ChatInterface_useState_def MootCourt_useState_def)
qed

text \<open>
  The claim as first stated has exactly one message of the user and exactly one reply
  appended for every submission. On the moot-court screen one submission is followed by
  two replies: the list grows by three messages, the user's, the opponent's and the
  judge's. On the chat screen, when the second of two submissions is handled after the
  first timer has fired and before the render that follows it, the first reply is
  overwritten: after both timers the list holds two messages of the user and one reply.
\<close>

theorem one_reply_counterexample:
  "length (messages (hooks (court_run
      [CChange [0x68, 0x69], CSubmit 1000, CFire 0 2500 Pick0, CFire 0 4500 Pick0]
      (MootCourt_init :: unit court_state))))
     = length (messages (hooks (MootCourt_init :: unit court_state))) + 3
   \<and> map sender (messages (hooks (court_run
      [CChange [0x68, 0x69], CSubmit 1000, CFire 0 2500 Pick0, CFire 0 4500 Pick0]
      (MootCourt_init :: unit court_state))))
     = [Judge, User, Opponent, Judge]
   \<and> timers (court_run
      [CChange [0x68, 0x69], CSubmit 1000, CFire 0 2500 Pick0, CFire 0 4500 Pick0]
      (MootCourt_init :: unit court_state)) = []
   \<and> map sender (messages (hooks (chat_run
      [Change [0x61], Send [], Change [0x62], Fire 0 [], Send [], Fire 0 [], Render]
      (ChatInterface_init [] :: unit chat_state))))
     = [Bot, User, User, Bot]
   \<and> timers (chat_run
      [Change [0x61], Send [], Change [0x62], Fire 0 [], Send [], Fire 0 [], Render]
      (ChatInterface_init [] :: unit chat_state)) = []"
  by (simp add: MootCourt_init_def MootCourt_useState_def handleUserSubmit_def
      ChatInterface_init_def ChatInterface_useState_def handleSend_def
      falsy_def trim_def is_js_whitespace_def Let_def flush_def rerender_def)

section \<open>Uploading a file\<close>

text \<open>
  When the rendered message list is the list the hook holds, an upload appends one
  message of the user carrying the object URL and sets one timer of 2000 ms; the callback
  appends one canned reply of the assistant, whenever it runs. The handler calls
  \<open>URL.createObjectURL\<close> and \<open>setTimeout\<close> and nothing else; the callback makes no
  call.
\<close>

lemma upload_when_rendered:
  assumes "messages (render s) = messages (hooks s)"
  shows "messages (hooks (handleImageUpload (f # rest) url now s)) =
      messages (hooks s) @ [\<lparr>id' = int (length (messages (hooks s))) + 1, text' = upload_text,
                              image' = Some url, sender = User, timestamp = Some now\<rparr>]
    \<and> timers (handleImageUpload (f # rest) url now s) = timers s @ [(2000, AnalysisResponse)]
    \<and> calls (handleImageUpload (f # rest) url now s) =
        calls s @ [CreateObjectURL f, SetTimeout 2000]"
  using assms by (simp add: handleImageUpload_file)

lemma chat_callback_run_AnalysisResponse:
  "messages (hooks (chat_callback_run AnalysisResponse now s)) =
     messages (hooks s) @ [\<lparr>id' = int (length (messages (hooks s))) + 1,
                             text' = analysis_text, image' = None, sender = Bot,
                             timestamp = Some now\<rparr>]
   \<and> timers (chat_callback_run AnalysisResponse now s) = timers s
   \<and> calls (chat_callback_run AnalysisResponse now s) = calls s"
  by simp

text \<open>
  Claim C7 says that uploading a file appends exactly one user message carrying the
  attachment reference, followed after the delay by exactly one canned analysis reply,
  with no network request. \<open>handleImageUpload\<close> writes the list as the rendered list
  followed by the new message. A text is submitted and its timer fires; the file is picked
  before the render that follows the timer: the list the hook holds, greeting, text and
  reply, becomes greeting, text and upload. The reply is gone, so the upload has not
  appended to the list.
\<close>

theorem upload_overwrites_unrendered_reply:
  "map sender (messages (hooks (chat_run [Change [0x61], Send [], Fire 0 []]
      (ChatInterface_init [] :: unit chat_state)))) = [Bot, User, Bot]
   \<and> map sender (messages (hooks (chat_run
        [Change [0x61], Send [], Fire 0 [], Upload [()] (js ''blob:1'') []]
        (ChatInterface_init [] :: unit chat_state)))) = [Bot, User, User]
   \<and> map image' (messages (hooks (chat_run
        [Change [0x61], Send [], Fire 0 [], Upload [()] (js ''blob:1'') []]
        (ChatInterface_init [] :: unit chat_state)))) = [None, None, Some (js ''blob:1'')]
   \<and> map sender (messages (hooks (chat_run
        [Change [0x61], Send [], Fire 0 [], Upload [()] (js ''blob:1'') [], Fire 0 [], Render]
        (ChatInterface_init [] :: unit chat_state)))) = [Bot, User, User, Bot]"
  by (simp add: ChatInterface_init_def ChatInterface_useState_def handleSend_def
      handleImageUpload_def falsy_def trim_def is_js_whitespace_def Let_def flush_def
      rerender_def)

section \<open>Growth of the message list\<close>

text \<open>
  The timer callbacks of both screens and the submit handler of the moot-court screen call
  \<open>setMessages\<close> with a function and append one message to what the hook holds. On the
  moot-court screen the list therefore only grows at its end.
\<close>

lemma chat_callback_run_appends:
  "\<exists>m. messages (hooks (chat_callback_run cb now s)) = messages (hooks s) @ [m]"
  by (cases cb) simp_all

lemma court_callback_run_appends:
  "\<exists>m. messages (hooks (court_callback_run cb now p s)) = messages (hooks s) @ [m]"
  by (cases cb) simp_all

lemma court_step_appends:
  "messages (hooks (court_step e s)) = messages (hooks s)
   \<or> (\<exists>m. messages (hooks (court_step e s)) = messages (hooks s) @ [m])"
proof (cases e)
  case (CChange v)
  then show ?thesis by simp
next
  case (CSubmit now)
  then show ?thesis by (simp add: handleUserSubmit_def Let_def)
next
  case (CFire i now p)
  show ?thesis
  proof (cases "i < length (timers s)")
    case True
    obtain m where "messages (hooks (court_callback_run (snd (timers s ! i)) now p
        (s\<lparr>timers := take i (timers s) @ drop (Suc i) (timers s)\<rparr>)))
        = messages (hooks s) @ [m]"
      using court_callback_run_appends
        [of "snd (timers s ! i)" now p
            "s\<lparr>timers := take i (timers s) @ drop (Suc i) (timers s)\<rparr>"]
      by auto
    with True CFire show ?thesis by simp
  next
    case False
    with CFire show ?thesis by simp
  qed
next
  case CRender
  then show ?thesis by (simp add: rerender_def)
qed

lemma court_run_extends: "\<exists>ms. messages (hooks (court_run es s)) = messages (hooks s) @ ms"
proof (induction es arbitrary: s)
  case Nil
  show ?case by simp
next
  case (Cons e es)
  obtain ms where ms: "messages (hooks (court_run es (court_step e s)))
      = messages (hooks (court_step e s)) @ ms"
    using Cons.IH by blast
  from court_step_appends [of e s] show ?case
  proof
    assume "messages (hooks (court_step e s)) = messages (hooks s)"
    with ms show ?thesis by simp
  next
    assume "\<exists>m. messages (hooks (court_step e s)) = messages (hooks s) @ [m]"
    then obtain m where "messages (hooks (court_step e s)) = messages (hooks s) @ [m]" ..
    with ms show ?thesis by simp
  qed
qed

text \<open>
  On the chat screen every event appends one message or none, provided the rendered list
  is the list the hook holds when the event is handled.
\<close>

lemma chat_step_appends_when_rendered:
  assumes "messages (render s) = messages (hooks s)"
  shows "messages (hooks (chat_step e s)) = messages (hooks s)
   \<or> (\<exists>m. messages (hooks (chat_step e s)) = messages (hooks s) @ [m])"
proof (cases e)
  case (Change v)
  then show ?thesis by simp
next
  case (Send now)
  with assms show ?thesis by (simp add: handleSend_def Let_def)
next
  case (Upload files url now)
  with assms show ?thesis by (cases files) (simp_all add: handleImageUpload_def Let_def)
next
  case (Fire i now)
  show ?thesis
  proof (cases "i < length (timers s)")
    case True
    obtain m where "messages (hooks (chat_callback_run (snd (timers s ! i)) now
        (s\<lparr>timers := take i (timers s) @ drop (Suc i) (timers s)\<rparr>))) = messages (hooks s) @ [m]"
      using chat_callback_run_appends
        [of "snd (timers s ! i)" now "s\<lparr>timers := take i (timers s) @ drop (Suc i) (timers s)\<rparr>"]
      by auto
    with True Fire show ?thesis by simp
  next
    case False
    with Fire show ?thesis by simp
  qed
next
  case Render
  then show ?thesis by (simp add: rerender_def)
qed

text \<open>
  Claim C8 says that the message list is append-only: every operation leaves it unchanged
  or appends one message at its end, and no message is ever removed. \<open>handleSend\<close>
  calls \<open>setMessages\<close> with the rendered list followed by the new message. Two texts
  are submitted; the first timer fires after the second text has been typed, and the
  second text is submitted before the render that follows the timer. Before the second
  submission the hook holds greeting, first text and reply; after it the reply has been
  replaced by the second text.
\<close>

theorem send_overwrites_unrendered_reply:
  "map sender (messages (hooks (chat_run [Change [0x61], Send [], Change [0x62], Fire 0 []]
      (ChatInterface_init [] :: unit chat_state)))) = [Bot, User, Bot]
   \<and> messages (hooks (chat_run [Change [0x61], Send [], Change [0x62], Fire 0 [], Send []]
        (ChatInterface_init [] :: unit chat_state)))
      = butlast (messages (hooks (chat_run [Change [0x61], Send [], Change [0x62], Fire 0 []]
          (ChatInterface_init [] :: unit chat_state))))
        @ [\<lparr>id' = 3, text' = [0x62], image' = None, sender = User, timestamp = Some []\<rparr>]
   \<and> map sender (messages (hooks (chat_run [Change [0x61], Send [], Change [0x62], Fire 0 [], Send []]
        (ChatInterface_init [] :: unit chat_state)))) = [Bot, User, User]
   \<and> map sender (messages (render (chat_run [Change [0x61], Send [], Change [0x62], Fire 0 [], Send []]
        (ChatInterface_init [] :: unit chat_state)))) = [Bot, User, User]"
  by (simp add: ChatInterface_init_def ChatInterface_useState_def handleSend_def
      falsy_def trim_def is_js_whitespace_def Let_def flush_def rerender_def)

section \<open>Message ids\<close>

text \<open>
  Claim C3 says that no two messages of a session have the same id, also when the user
  submits again before a pending reply timer has fired. On the chat screen the reply of
  \<open>handleSend\<close> takes the id \<open>messages.length + 2\<close> of the render in which the
  form was submitted. Two submissions, the second made before the first timer fires, and
  then the first timer: the second user message and the first reply both have id 3, in
  the list the hook holds and in the list rendered from it.
\<close>

theorem chat_ids_collide:
  "map id' (messages (hooks (chat_run [Change [0x61], Send [], Change [0x62], Send [], Fire 0 []]
      (ChatInterface_init [] :: unit chat_state)))) = [1, 2, 3, 3]
   \<and> \<not> distinct (map id' (messages (hooks (chat_run
        [Change [0x61], Send [], Change [0x62], Send [], Fire 0 []]
        (ChatInterface_init [] :: unit chat_state)))))
   \<and> map id' (messages (render (chat_run
        [Change [0x61], Send [], Change [0x62], Send [], Fire 0 [], Render]
        (ChatInterface_init [] :: unit chat_state)))) = [1, 2, 3, 3]"
  by (simp add: ChatInterface_init_def ChatInterface_useState_def handleSend_def
      falsy_def trim_def is_js_whitespace_def Let_def flush_def rerender_def)

section \<open>One reply sequence at a time\<close>

lemma open_round_append: "open_round (xs @ ys) = open_round (open_round xs @ ys)"
  by (induction xs rule: open_round.induct) simp_all

lemma senders_flush [simp]: "senders (flush s s') = senders s'"
  by (simp add: senders_def)

lemma reply_pending_init: "reply_pending MootCourt_init"
  by (simp add: reply_pending_def senders_def MootCourt_init_def MootCourt_useState_def)

lemma reply_pending_calls: "reply_pending (s\<lparr>calls := cs\<rparr>) = reply_pending s"
  by (simp add: reply_pending_def senders_def)

lemma reply_pending_idle:
  assumes "reply_pending s" and "\<not> isSimulating (render s)"
  shows "\<not> isSimulating (hooks s) \<and> timers s = [] \<and> open_round (tl (senders s)) = []
    \<and> senders s \<noteq> [] \<and> hd (senders s) = Judge"
  using assms by (auto simp add: reply_pending_def split: if_splits)

lemma reply_pending_change:
  assumes inv: "reply_pending s" and en: "\<not> isSimulating (render s)"
  shows "reply_pending (court_step (CChange v) s)"
proof -
  from reply_pending_idle [OF inv en]
  have idle: "\<not> isSimulating (hooks s)" "timers s = []" "open_round (tl (senders s)) = []"
    "senders s \<noteq> []" "hd (senders s) = Judge" by simp_all
  then show ?thesis
    by (simp add: reply_pending_def flush_def rerender_def senders_def)
qed

lemma reply_pending_submit:
  assumes inv: "reply_pending s" and en: "\<not> isSimulating (render s)"
  shows "reply_pending (court_step (CSubmit now) s)"
proof (cases "whitespace_only (inputText (render s))")
  case True
  then have "court_step (CSubmit now) s = s\<lparr>calls := calls s @ [PreventDefault]\<rparr>"
    by (simp add: handleUserSubmit_blank flush_unchanged)
  with inv show ?thesis
    by (simp add: reply_pending_calls)
next
  case False
  from reply_pending_idle [OF inv en]
  have idle: "\<not> isSimulating (hooks s)" "timers s = []" "open_round (tl (senders s)) = []"
    "senders s \<noteq> []" "hd (senders s) = Judge" by simp_all
  have "open_round (tl (senders s) @ [User]) = open_round (open_round (tl (senders s)) @ [User])"
    by (rule open_round_append)
  with idle have round: "open_round (tl (senders s) @ [User]) = [User]" by simp
  from idle have ne: "map sender (messages (hooks s)) \<noteq> []" by (simp add: senders_def)
  have changed: "hooks (handleUserSubmit now s) \<noteq> hooks s"
  proof
    assume "hooks (handleUserSubmit now s) = hooks s"
    then have "isSimulating (hooks (handleUserSubmit now s)) = isSimulating (hooks s)"
      by simp
    with False idle show False by (simp add: handleUserSubmit_text)
  qed
  then have "court_step (CSubmit now) s = rerender (handleUserSubmit now s)"
    by (simp add: flush_def)
  with False idle round ne show ?thesis
    by (simp add: handleUserSubmit_text rerender_def reply_pending_def senders_def)
qed

lemma reply_pending_fire:
  assumes inv: "reply_pending s" and en: "i < length (timers s)"
  shows "reply_pending (court_step (CFire i now p) s)"
proof -
  from en have "timers s \<noteq> []" by auto
  with inv have sim: "isSimulating (hooks s)" and ren: "isSimulating (render s)"
    and ne: "senders s \<noteq> []" and hd: "hd (senders s) = Judge"
    and ts: "(timers s = [(1500, OpponentReply)] \<and> open_round (tl (senders s)) = [User])
      \<or> (timers s = [(2000, JudgeReply)] \<and> open_round (tl (senders s)) = [User, Opponent])"
    by (auto simp add: reply_pending_def split: if_splits)
  from ts en have i0: "i = 0" by auto
  from ne have ne': "map sender (messages (hooks s)) \<noteq> []" by (simp add: senders_def)
  from ts show ?thesis
  proof
    assume a: "timers s = [(1500, OpponentReply)] \<and> open_round (tl (senders s)) = [User]"
    have "open_round (tl (senders s) @ [Opponent])
        = open_round (open_round (tl (senders s)) @ [Opponent])"
      by (rule open_round_append)
    with a have "open_round (tl (senders s) @ [Opponent]) = [User, Opponent]" by simp
    with a i0 sim ren ne' hd show ?thesis
      by (simp add: reply_pending_def senders_def)
  next
    assume a: "timers s = [(2000, JudgeReply)] \<and> open_round (tl (senders s)) = [User, Opponent]"
    have "open_round (tl (senders s) @ [Judge])
        = open_round (open_round (tl (senders s)) @ [Judge])"
      by (rule open_round_append)
    with a have "open_round (tl (senders s) @ [Judge]) = []" by simp
    with a i0 sim ren ne' hd show ?thesis
      by (simp add: reply_pending_def senders_def)
  qed
qed

lemma reply_pending_render:
  assumes inv: "reply_pending s"
  shows "reply_pending (court_step CRender s)"
  using inv by (auto simp add: reply_pending_def rerender_def senders_def split: if_splits)

lemma reply_pending_step:
  assumes inv: "reply_pending s" and en: "court_enabled e s"
  shows "reply_pending (court_step e s)"
proof (cases e)
  case (CChange v)
  with en have "\<not> isSimulating (render s)" by (simp add: input_disabled_def)
  with inv have "reply_pending (court_step (CChange v) s)" by (rule reply_pending_change)
  then show ?thesis by (simp only: CChange)
next
  case (CSubmit now)
  with en have "\<not> isSimulating (render s)" by (simp add: button_disabled_def)
  with inv have "reply_pending (court_step (CSubmit now) s)" by (rule reply_pending_submit)
  then show ?thesis by (simp only: CSubmit)
next
  case (CFire i now p)
  with en have "i < length (timers s)" by simp
  with inv have "reply_pending (court_step (CFire i now p) s)" by (rule reply_pending_fire)
  then show ?thesis by (simp only: CFire)
next
  case CRender
  from inv have "reply_pending (court_step CRender s)" by (rule reply_pending_render)
  then show ?thesis by (simp only: CRender)
qed

lemma reply_pending_run:
  "reply_pending s \<Longrightarrow> court_ui_run es s = Some s' \<Longrightarrow> reply_pending s'"
proof (induction es arbitrary: s)
  case Nil
  then show ?case by simp
next
  case (Cons e es)
  from Cons.prems(2) have en: "court_enabled e s"
    by (simp split: if_splits)
  with Cons.prems(2) have run: "court_ui_run es (court_step e s) = Some s'"
    by simp
  from Cons.prems(1) en have "reply_pending (court_step e s)"
    by (rule reply_pending_step)
  then show ?case using run by (rule Cons.IH)
qed

lemma reply_pending_only_timer:
  assumes inv: "reply_pending s" and sim: "isSimulating (hooks s)" and en: "court_enabled e s"
  shows "e = CRender \<or> (\<exists>now p. e = CFire 0 now p)"
proof (cases e)
  case (CChange v)
  with inv sim en show ?thesis by (simp add: input_disabled_def reply_pending_def)
next
  case (CSubmit now)
  with inv sim en show ?thesis by (simp add: button_disabled_def reply_pending_def)
next
  case (CFire i now p)
  with en have "i < length (timers s)" by simp
  moreover from inv sim have "length (timers s) = 1"
    by (auto simp add: reply_pending_def)
  ultimately have "i = 0" by simp
  with CFire show ?thesis by simp
next
  case CRender
  then show ?thesis by simp
qed

text \<open>
  Claim C9. On the moot-court screen, while \<open>isSimulating\<close> is true the argument field
  and the Present button are disabled, so no new submission can occur until the opponent's
  and the judge's replies have been appended and the flag cleared; at most one reply
  sequence is pending at any time and overlapping reply timers cannot arise through the
  user interface. In every state reached through the user interface from the mounted
  screen: at most one timer is pending, the opponent's or the judge's; the flag is set
  exactly while one is, and the form is then rendered disabled, so that a submission is
  not possible and the only possible events are the firing of that timer and a render;
  the opponent's timer is pending exactly after a message of the user that has no reply
  yet, the judge's exactly after a message of the user and the opponent's reply to it;
  and whenever a submission is possible, every message of the user so far is followed by
  the opponent's reply and the judge's reply to it.
\<close>

theorem one_reply_sequence_at_a_time:
  assumes "court_ui_run es MootCourt_init = Some s"
  shows "length (timers s) \<le> 1
    \<and> (isSimulating (hooks s) \<longleftrightarrow> timers s \<noteq> [])
    \<and> (timers s = [] \<or> timers s = [(1500, OpponentReply)] \<or> timers s = [(2000, JudgeReply)])
    \<and> senders s \<noteq> [] \<and> hd (senders s) = Judge
    \<and> (timers s = [] \<longrightarrow> open_round (tl (senders s)) = [])
    \<and> (timers s = [(1500, OpponentReply)] \<longrightarrow> open_round (tl (senders s)) = [User])
    \<and> (timers s = [(2000, JudgeReply)] \<longrightarrow> open_round (tl (senders s)) = [User, Opponent])
    \<and> (isSimulating (hooks s) \<longrightarrow>
          input_disabled s \<and> button_disabled s
          \<and> \<not> court_enabled (CSubmit now) s
          \<and> court_ui_run [CSubmit now] s = None
          \<and> (court_enabled e s \<longrightarrow> e = CRender \<or> (\<exists>now' p. e = CFire 0 now' p)))
    \<and> (court_enabled (CSubmit now) s \<longrightarrow>
          \<not> isSimulating (hooks s) \<and> timers s = [] \<and> open_round (tl (senders s)) = [])"
proof -
  have inv: "reply_pending s"
    using reply_pending_init assms by (rule reply_pending_run)
  then have hd: "senders s \<noteq> [] \<and> hd (senders s) = Judge"
    by (simp add: reply_pending_def)
  show ?thesis
  proof (cases "isSimulating (hooks s)")
    case True
    with inv have ren: "isSimulating (render s)"
      and ts: "(timers s = [(1500, OpponentReply)] \<and> open_round (tl (senders s)) = [User])
        \<or> (timers s = [(2000, JudgeReply)] \<and> open_round (tl (senders s)) = [User, Opponent])"
      by (simp_all add: reply_pending_def)
    have only: "court_enabled e s \<longrightarrow> e = CRender \<or> (\<exists>now' p. e = CFire 0 now' p)"
      using reply_pending_only_timer [OF inv True] by blast
    from ts have "length (timers s) \<le> 1" and "timers s \<noteq> []" by auto
    with True ren ts only hd show ?thesis
      by (auto simp add: input_disabled_def button_disabled_def)
  next
    case False
    with inv have "timers s = []" and "open_round (tl (senders s)) = []"
      by (simp_all add: reply_pending_def)
    with False hd show ?thesis by simp
  qed
qed

text \<open>
  After \<open>hi\<close> has been typed and submitted the opponent's timer is pending, the user's
  message is the open round, and a second submission is not possible.
\<close>

theorem one_reply_sequence_at_a_time_witness:
  "court_ui_run [CChange [0x68, 0x69], CSubmit 1000] (MootCourt_init :: unit court_state)
     = Some ((MootCourt_init :: unit court_state)
         \<lparr>calls := [PreventDefault, SetTimeout 1500],
           hooks := MootCourt_useState
             \<lparr>messages := messages MootCourt_useState @
                [\<lparr>id' = 1000, text' = [0x68, 0x69], image' = None, sender = User,
                  timestamp = None\<rparr>],
              isSimulating := True\<rparr>,
           render := MootCourt_useState
             \<lparr>messages := messages MootCourt_useState @
                [\<lparr>id' = 1000, text' = [0x68, 0x69], image' = None, sender = User,
                  timestamp = None\<rparr>],
              isSimulating := True\<rparr>,
           timers := [(1500, OpponentReply)]\<rparr>)
   \<and> open_round (tl (senders ((MootCourt_init :: unit court_state)
         \<lparr>calls := [PreventDefault, SetTimeout 1500],
           hooks := MootCourt_useState
             \<lparr>messages := messages MootCourt_useState @
                [\<lparr>id' = 1000, text' = [0x68, 0x69], image' = None, sender = User,
                  timestamp = None\<rparr>],
              isSimulating := True\<rparr>,
           render := MootCourt_useState
             \<lparr>messages := messages MootCourt_useState @
                [\<lparr>id' = 1000, text' = [0x68, 0x69], image' = None, sender = User,
                  timestamp = None\<rparr>],
              isSimulating := True\<rparr>,
           timers := [(1500, OpponentReply)]\<rparr>))) = [User]
   \<and> court_ui_run [CChange [0x68, 0x69], CSubmit 1000, CSubmit 1200]
        (MootCourt_init :: unit court_state) = None"
proof -
  let ?s = "(MootCourt_init :: unit court_state)
         \<lparr>calls := [PreventDefault, SetTimeout 1500],
           hooks := MootCourt_useState
             \<lparr>messages := messages MootCourt_useState @
                [\<lparr>id' = 1000, text' = [0x68, 0x69], image' = None, sender = User,
                  timestamp = None\<rparr>],
              isSimulating := True\<rparr>,
           render := MootCourt_useState
             \<lparr>messages := messages MootCourt_useState @
                [\<lparr>id' = 1000, text' = [0x68, 0x69], image' = None, sender = User,
                  timestamp = None\<rparr>],
              isSimulating := True\<rparr>,
           timers := [(1500, OpponentReply)]\<rparr>"
  have run: "court_ui_run [CChange [0x68, 0x69], CSubmit 1000] (MootCourt_init :: unit court_state)
     = Some ?s"
    by (simp add: MootCourt_init_def MootCourt_useState_def handleUserSubmit_def falsy_def
        trim_def is_js_whitespace_def Let_def input_disabled_def button_disabled_def
        flush_def rerender_def)
  have ts: "timers ?s = [(1500, OpponentReply)]" and sim: "isSimulating (hooks ?s)"
    by simp_all
  from one_reply_sequence_at_a_time [OF run, of 1200] ts sim
  have round: "open_round (tl (senders ?s)) = [User]"
    and no: "court_ui_run [CSubmit 1200] ?s = None"
    by blast+
  have "court_ui_run [CChange [0x68, 0x69], CSubmit 1000, CSubmit 1200]
        (MootCourt_init :: unit court_state) = None"
    using no
    by (simp add: MootCourt_init_def MootCourt_useState_def handleUserSubmit_def falsy_def
        trim_def is_js_whitespace_def Let_def input_disabled_def button_disabled_def
        flush_def rerender_def)
  with run round show ?thesis by (simp only: simp_thms)
qed

section \<open>The indices drawn\<close>

lemma pick_index_less:
  "pick_index p < length opponent_responses \<and> pick_index p < length judge_responses"
  by (cases p) (simp_all add: opponent_responses_def judge_responses_def)

end
